theory Spec2Isabelle
  imports Complex_Main
begin

section \<open>Values of the program\<close>

text \<open>
  The program (\<^verbatim>\<open>app.py\<close>) handles what \<^verbatim>\<open>response.json()\<close> decodes: Python values
  built from \<^verbatim>\<open>None\<close>, booleans, numbers, strings, lists and dicts. A dict is kept as
  the list of its items (keys distinct, as in a Python dict); a string is a list of characters
  with code points below 256; a float is a real number (no infinity, no NaN).
\<close>

datatype json =
    JNull
  | JBool bool
  | JInt int
  | JFloat real
  | JStr string
  | JArr "json list"
  | JObj "(string \<times> json) list"

text \<open>
  The exceptions the program can raise. \<open>ApiCallFailed c\<close> is
  \<^verbatim>\<open>Exception(f"API call failed with status code {c}")\<close>; \<open>LibraryError\<close> stands for
  whatever the libraries outside the program raise (network, JSON decoding, date parsing).
\<close>

datatype error =
    KeyError string
  | TypeError
  | IndexError
  | ApiCallFailed int
  | LibraryError string

definition bind_err :: "error + 'a \<Rightarrow> ('a \<Rightarrow> error + 'b) \<Rightarrow> error + 'b" where
  "bind_err m f = (case m of Inl e \<Rightarrow> Inl e | Inr x \<Rightarrow> f x)"

text \<open>Python truth value of a decoded value, as \<^verbatim>\<open>or\<close> tests it.\<close>

fun truthy :: "json \<Rightarrow> bool" where
  "truthy JNull = False"
| "truthy (JBool b) = b"
| "truthy (JInt n) = (n \<noteq> 0)"
| "truthy (JFloat x) = (x \<noteq> 0)"
| "truthy (JStr s) = (s \<noteq> [])"
| "truthy (JArr xs) = (xs \<noteq> [])"
| "truthy (JObj kvs) = (kvs \<noteq> [])"

text \<open>\<^verbatim>\<open>len(v)\<close>: defined on strings, lists and dicts, a \<^verbatim>\<open>TypeError\<close> otherwise.\<close>

fun py_len :: "json \<Rightarrow> error + nat" where
  "py_len (JStr s) = Inr (length s)"
| "py_len (JArr xs) = Inr (length xs)"
| "py_len (JObj kvs) = Inr (length kvs)"
| "py_len v = Inl TypeError"

text \<open>\<^verbatim>\<open>flare[k]\<close>: a \<^verbatim>\<open>KeyError\<close> on a dict without the key; a string key on anything
  that is not a dict is a \<^verbatim>\<open>TypeError\<close>.\<close>

fun subscript :: "json \<Rightarrow> string \<Rightarrow> error + json" where
  "subscript (JObj kvs) k = (case map_of kvs k of None \<Rightarrow> Inl (KeyError k) | Some v \<Rightarrow> Inr v)"
| "subscript v k = Inl TypeError"

text \<open>\<^verbatim>\<open>flare.get(k, d)\<close> on a dict.\<close>

definition dict_get :: "(string \<times> json) list \<Rightarrow> string \<Rightarrow> json \<Rightarrow> json" where
  "dict_get kvs k d = (case map_of kvs k of None \<Rightarrow> d | Some v \<Rightarrow> v)"

text \<open>\<^verbatim>\<open>a or b\<close>.\<close>

definition py_or :: "json \<Rightarrow> json \<Rightarrow> json" where
  "py_or a b = (if truthy a then a else b)"

text \<open>\<^verbatim>\<open>len(flare.get(k, []) or [])\<close>, lines 37 and 38.\<close>

definition list_count :: "(string \<times> json) list \<Rightarrow> string \<Rightarrow> error + nat" where
  "list_count kvs k = py_len (py_or (dict_get kvs k (JArr [])) (JArr []))"

section \<open>The tabular transformation\<close>

text \<open>One dict of \<^verbatim>\<open>processed_data\<close>: the nine keys of the dict display of lines 29 to 39.\<close>

record flare_row =
  flrID :: json
  beginTime :: json
  peakTime :: json
  endTime :: json
  classType :: json
  sourceLocation :: json
  activeRegionNum :: json
  linkedEvents :: nat
  instruments :: nat

text \<open>
  The dict display evaluates its values in order, so the first failing subscript decides
  the exception. Seven values are read with \<^verbatim>\<open>flare[...]\<close>, two with
  \<^verbatim>\<open>flare.get(..., [])\<close>.
\<close>

fun make_row :: "json \<Rightarrow> error + flare_row" where
  "make_row (JObj kvs) =
     bind_err (subscript (JObj kvs) ''flrID'') (\<lambda>v1.
     bind_err (subscript (JObj kvs) ''beginTime'') (\<lambda>v2.
     bind_err (subscript (JObj kvs) ''peakTime'') (\<lambda>v3.
     bind_err (subscript (JObj kvs) ''endTime'') (\<lambda>v4.
     bind_err (subscript (JObj kvs) ''classType'') (\<lambda>v5.
     bind_err (subscript (JObj kvs) ''sourceLocation'') (\<lambda>v6.
     bind_err (subscript (JObj kvs) ''activeRegionNum'') (\<lambda>v7.
     bind_err (list_count kvs ''linkedEvents'') (\<lambda>n1.
     bind_err (list_count kvs ''instruments'') (\<lambda>n2.
       Inr \<lparr>flrID = v1, beginTime = v2, peakTime = v3, endTime = v4, classType = v5,
            sourceLocation = v6, activeRegionNum = v7,
            linkedEvents = n1, instruments = n2\<rparr>)))))))))"
| "make_row v = Inl TypeError"

text \<open>The loop of lines 28 to 39: each record appends one dict to \<^verbatim>\<open>processed_data\<close>.\<close>

fun process_loop :: "json list \<Rightarrow> flare_row list \<Rightarrow> error + flare_row list" where
  "process_loop [] processed_data = Inr processed_data"
| "process_loop (flare # rest) processed_data =
     (case make_row flare of
        Inl e \<Rightarrow> Inl e
      | Inr row \<Rightarrow> process_loop rest (processed_data @ [row]))"

text \<open>\<^verbatim>\<open>for flare in data\<close>: a list yields its elements, a dict its keys, a string its
  characters; anything else is not iterable.\<close>

fun py_iter :: "json \<Rightarrow> error + json list" where
  "py_iter (JArr xs) = Inr xs"
| "py_iter (JObj kvs) = Inr (map (\<lambda>kv. JStr (fst kv)) kvs)"
| "py_iter (JStr s) = Inr (map (\<lambda>c. JStr [c]) s)"
| "py_iter v = Inl TypeError"

text \<open>
  The table. \<^verbatim>\<open>pd.DataFrame(processed_data)\<close> takes its columns from the keys of the
  dicts it is given: here always the same nine keys, and no column at all when the list is
  empty. Selecting a column that the table does not have raises \<^verbatim>\<open>KeyError\<close>.
\<close>

record dataframe =
  df_columns :: "string list"
  df_rows :: "flare_row list"

definition row_keys :: "string list" where
  "row_keys = [''flrID'', ''beginTime'', ''peakTime'', ''endTime'', ''classType'',
               ''sourceLocation'', ''activeRegionNum'', ''linkedEvents'', ''instruments'']"

definition DataFrame :: "flare_row list \<Rightarrow> dataframe" where
  "DataFrame processed_data =
     \<lparr>df_columns = (if processed_data = [] then [] else row_keys), df_rows = processed_data\<rparr>"

definition df_len :: "dataframe \<Rightarrow> nat" where
  "df_len df = length (df_rows df)"

definition column :: "dataframe \<Rightarrow> string \<Rightarrow> (flare_row \<Rightarrow> 'a) \<Rightarrow> error + 'a list" where
  "column df name field =
     (if name \<in> set (df_columns df) then Inr (map field (df_rows df)) else Inl (KeyError name))"

definition process_data :: "json \<Rightarrow> error + dataframe" where
  "process_data data =
     bind_err (py_iter data) (\<lambda>flares.
     bind_err (process_loop flares []) (\<lambda>processed_data.
       Inr (DataFrame processed_data)))"

section \<open>The fetch\<close>

text \<open>
  What lies outside the program is a parameter of the model: the formatting of a date as
  \<^verbatim>\<open>%Y-%m-%d\<close>, the HTTP request, and the two pandas operations whose results no
  property below depends on (\<^verbatim>\<open>value_counts\<close> and \<^verbatim>\<open>pd.to_datetime\<close>, the latter
  giving a timestamp in nanoseconds since the epoch for each value it can parse, and an
  exception otherwise; the missing timestamp that pandas gives for null is not modelled).
  A calendar date is the number of its day, counted from 1 January 1970 as the days of the
  timestamps are, so that the comparison of two dates is the comparison of two integers.
\<close>

record response =
  status_code :: int
  json_body :: "error + json"

record world =
  strftime :: "int \<Rightarrow> string"
  requests_get :: "string \<Rightarrow> error + response"
  value_counts :: "json list \<Rightarrow> error + (json \<times> nat) list"
  to_datetime :: "json \<Rightarrow> error + int"

datatype figure =
    Pie "(json \<times> nat) list"
  | Line "(int \<times> nat) list"
  | Scatter "(int \<times> int \<times> json) list"

text \<open>What a run does that can be observed: the calls that put something on the page, in
  order, and the one network request. Calls that only arrange the page (the two columns of
  the date inputs, the axis titles and ticks of a chart) leave no event.\<close>

datatype event =
    SetPageConfig
  | Style
  | Title
  | DateInput string
  | Button string
  | Spinner string
  | HttpGet string
  | TotalFlares nat
  | Tabs "string list"
  | Markdown string
  | Subheader string
  | PlotlyChart figure
  | ErrorBox string

text \<open>A computation leaves a trace of events and ends in a value or in an exception.\<close>

type_synonym 'a run = "event list \<times> (error + 'a)"

definition emit :: "event list \<Rightarrow> unit run" where
  "emit es = (es, Inr ())"

definition lift :: "error + 'a \<Rightarrow> 'a run" where
  "lift r = ([], r)"

definition and_then :: "'a run \<Rightarrow> ('a \<Rightarrow> 'b run) \<Rightarrow> 'b run" where
  "and_then m f =
     (case snd m of
        Inl e \<Rightarrow> (fst m, Inl e)
      | Inr x \<Rightarrow> (fst m @ fst (f x), snd (f x)))"

definition flare_url :: "world \<Rightarrow> int \<Rightarrow> int \<Rightarrow> string" where
  "flare_url w start_date end_date =
     ''https://kauai.ccmc.gsfc.nasa.gov/DONKI/WS/get/FLR?startDate='' @ strftime w start_date
       @ ''&endDate='' @ strftime w end_date"

definition get_solar_flare_data :: "world \<Rightarrow> int \<Rightarrow> int \<Rightarrow> json run" where
  "get_solar_flare_data w start_date end_date =
     and_then (emit [HttpGet (flare_url w start_date end_date)]) (\<lambda>_.
     and_then (lift (requests_get w (flare_url w start_date end_date))) (\<lambda>response.
       if status_code response = 200 then lift (json_body response)
       else lift (Inl (ApiCallFailed (status_code response)))))"

section \<open>The three views\<close>

text \<open>\<^verbatim>\<open>Series.apply(f)\<close>: \<open>f\<close> on each value in order; the first exception ends it.\<close>

fun apply_each :: "('a \<Rightarrow> error + 'b) \<Rightarrow> 'a list \<Rightarrow> error + 'b list" where
  "apply_each f [] = Inr []"
| "apply_each f (x # xs) =
     (case f x of
        Inl e \<Rightarrow> Inl e
      | Inr y \<Rightarrow> (case apply_each f xs of Inl e \<Rightarrow> Inl e | Inr ys \<Rightarrow> Inr (y # ys)))"

text \<open>\<^verbatim>\<open>ord(v)\<close>: the code point of a string of length one.\<close>

fun py_ord :: "json \<Rightarrow> error + int" where
  "py_ord (JStr [c]) = Inr (of_char c)"
| "py_ord v = Inl TypeError"

text \<open>
  Line 147, \<^verbatim>\<open>lambda x: ord(x[0]) - 65  # Convert A-X to 0-23\<close>. The first element of
  a string is its first character, of a list its first value; both raise \<^verbatim>\<open>IndexError\<close>
  when empty. A dict has no key \<^verbatim>\<open>0\<close> (its keys are strings).
\<close>

fun intensity :: "json \<Rightarrow> error + int" where
  "intensity (JStr []) = Inl IndexError"
| "intensity (JStr (c # cs)) = Inr (of_char c - 65)"
| "intensity (JArr []) = Inl IndexError"
| "intensity (JArr (v # vs)) = bind_err (py_ord v) (\<lambda>n. Inr (n - 65))"
| "intensity (JObj kvs) = Inl (KeyError ''0'')"
| "intensity v = Inl TypeError"

text \<open>
  Line 138, \<^verbatim>\<open>df.set_index('beginTime').resample('D')['flrID'].count()\<close>: the rows are
  put into calendar days by their timestamp, the days run from the day of the earliest
  timestamp to the day of the latest, and \<^verbatim>\<open>count\<close> counts in each day the rows whose
  \<^verbatim>\<open>flrID\<close> is not null. A day is its number since the epoch.
\<close>

definition ns_per_day :: int where
  "ns_per_day = 86400000000000"

definition day_of :: "int \<Rightarrow> int" where
  "day_of t = t div ns_per_day"

definition day_count :: "(int \<times> json) list \<Rightarrow> int \<Rightarrow> nat" where
  "day_count indexed d = length (filter (\<lambda>tv. day_of (fst tv) = d \<and> snd tv \<noteq> JNull) indexed)"

definition resample_count :: "(int \<times> json) list \<Rightarrow> (int \<times> nat) list" where
  "resample_count indexed =
     (if indexed = [] then []
      else map (\<lambda>d. (d, day_count indexed d))
             [Min (set (map (\<lambda>tv. day_of (fst tv)) indexed)) ..
              Max (set (map (\<lambda>tv. day_of (fst tv)) indexed))])"

definition pie_tab :: "world \<Rightarrow> dataframe \<Rightarrow> unit run" where
  "pie_tab w df =
     and_then (emit [Markdown ''This section provides an overview of the solar flare data and the distribution of their class types.'',
                     Subheader ''Distribution of Flare Class Types'']) (\<lambda>_.
     and_then (lift (column df ''classType'' classType)) (\<lambda>classes.
     and_then (lift (value_counts w classes)) (\<lambda>class_counts.
       emit [PlotlyChart (Pie class_counts)])))"

definition timeline_tab :: "world \<Rightarrow> dataframe \<Rightarrow> int list run" where
  "timeline_tab w df =
     and_then (emit [Subheader ''Number of Flares Over Time'']) (\<lambda>_.
     and_then (lift (column df ''beginTime'' beginTime)) (\<lambda>begins.
     and_then (lift (apply_each (to_datetime w) begins)) (\<lambda>stamps.
     and_then (lift (column df ''flrID'' flrID)) (\<lambda>ids.
     and_then (emit [PlotlyChart (Line (resample_count (zip stamps ids)))]) (\<lambda>_.
       lift (Inr stamps))))))"

definition scatter_tab :: "dataframe \<Rightarrow> int list \<Rightarrow> unit run" where
  "scatter_tab df stamps =
     and_then (emit [Subheader ''Solar Flare Intensity Over Time'']) (\<lambda>_.
     and_then (lift (column df ''classType'' classType)) (\<lambda>classes.
     and_then (lift (apply_each intensity classes)) (\<lambda>intensities.
       emit [PlotlyChart (Scatter (zip stamps (zip intensities classes)))])))"

section \<open>The page\<close>

text \<open>
  \<^verbatim>\<open>main\<close>, from the two dates the user has entered and whether the button is pressed.
  The title is written without its emoji.
\<close>

definition analyze :: "world \<Rightarrow> int \<Rightarrow> int \<Rightarrow> unit run" where
  "analyze w start_date end_date =
     and_then (emit [Spinner ''Fetching and processing data...'']) (\<lambda>_.
     and_then (get_solar_flare_data w start_date end_date) (\<lambda>data.
     and_then (lift (process_data data)) (\<lambda>df.
     and_then (emit [TotalFlares (df_len df),
                     Tabs [''Pie Chart'', ''Flare Timeline'', ''Advanced Analysis'']]) (\<lambda>_.
     and_then (pie_tab w df) (\<lambda>_.
     and_then (timeline_tab w df) (\<lambda>stamps.
       scatter_tab df stamps))))))"

definition footer :: "event list" where
  "footer = [Markdown ''---'',
             Markdown '' | Data source: NASA DONKI API - Real-time data from the Space Weather Database Of Notifications, Knowledge, Information (DONKI) by Auth. NASA data Sources - HRS'']"

definition main :: "world \<Rightarrow> int \<Rightarrow> int \<Rightarrow> bool \<Rightarrow> unit run" where
  "main w start_date end_date pressed =
     and_then (emit [SetPageConfig, Style, Title, DateInput ''Start Date'', DateInput ''End Date'']) (\<lambda>_.
     and_then
       (if start_date \<le> end_date then
          and_then (emit [Button ''Analyze Solar Flares'']) (\<lambda>_.
            if pressed then analyze w start_date end_date else emit [])
        else emit [ErrorBox ''Error: End date must be after start date.'']) (\<lambda>_.
       emit footer))"

section \<open>Notions the properties are stated with\<close>

text \<open>The seven keys that the transformation reads with \<^verbatim>\<open>flare[...]\<close> (lines 30 to 36).\<close>

definition subscripted_keys :: "string list" where
  "subscripted_keys = [''flrID'', ''beginTime'', ''peakTime'', ''endTime'', ''classType'',
                       ''sourceLocation'', ''activeRegionNum'']"

text \<open>An optional list field as the data model has it: absent, null or a list.\<close>

fun optional_list :: "json option \<Rightarrow> bool" where
  "optional_list None = True"
| "optional_list (Some JNull) = True"
| "optional_list (Some (JArr xs)) = True"
| "optional_list (Some v) = False"

text \<open>The count as the specification words it: the length of the list when the field is
  present and not null, 0 when it is null or absent.\<close>

fun spec_count :: "json option \<Rightarrow> nat" where
  "spec_count (Some (JArr xs)) = length xs"
| "spec_count v = 0"

text \<open>Sample inputs: a record as the upstream service sends it, and the two records of the
  specification's scenario.\<close>

definition sample_items :: "string \<Rightarrow> string \<Rightarrow> string \<Rightarrow> (string \<times> json) list" where
  "sample_items ident begin cls =
     [(''flrID'', JStr ident), (''beginTime'', JStr begin), (''peakTime'', JStr begin),
      (''endTime'', JStr begin), (''classType'', JStr cls), (''sourceLocation'', JNull),
      (''activeRegionNum'', JNull), (''linkedEvents'', JNull),
      (''instruments'', JArr [JObj [(''displayName'', JStr ''GOES-P: EXIS 1.0-8.0'')]])]"

definition sample_data :: "json list" where
  "sample_data = [JObj (sample_items ''FLR-001'' ''2024-01-01T00:00Z'' ''M2.3''),
                  JObj (sample_items ''FLR-002'' ''2024-01-02T00:00Z'' ''X1.0'')]"

text \<open>
  A stub of the outside for the sample runs: the dates it can format, the reply of the
  upstream service, and the timestamps of the strings it can parse.
\<close>

definition stub_world :: "(int \<times> string) list \<Rightarrow> error + response \<Rightarrow> (json \<times> int) list \<Rightarrow> world" where
  "stub_world dates reply parsed =
     \<lparr>strftime = (\<lambda>d. case map_of dates d of None \<Rightarrow> [] | Some s \<Rightarrow> s),
      requests_get = (\<lambda>url. reply),
      value_counts = (\<lambda>classes. Inr (map (\<lambda>c. (c, count_list classes c)) (remdups classes))),
      to_datetime = (\<lambda>v. case map_of parsed v of
                             None \<Rightarrow> Inl (LibraryError ''not parsed'')
                           | Some t \<Rightarrow> Inr t)\<rparr>"

text \<open>The day-and-count sequences of the line charts of a trace.\<close>

fun line_charts :: "event list \<Rightarrow> (int \<times> nat) list list" where
  "line_charts [] = []"
| "line_charts (PlotlyChart (Line pairs) # es) = pairs # line_charts es"
| "line_charts (e # es) = line_charts es"

section \<open>Properties of the transformation\<close>

lemma bind_err_simps [simp]:
  "bind_err (Inr x) f = f x"
  "bind_err (Inl e) f = Inl e"
  by (simp_all add: bind_err_def)

lemma apply_each_Inr_D:
  "apply_each f xs = Inr ys \<Longrightarrow> list_all2 (\<lambda>x y. f x = Inr y) xs ys"
  by (induction xs arbitrary: ys) (auto split: sum.splits)

lemma apply_each_Inr_I:
  "list_all2 (\<lambda>x y. f x = Inr y) xs ys \<Longrightarrow> apply_each f xs = Inr ys"
  by (induction xs ys rule: list_all2_induct) auto

lemma apply_each_Inl_iff:
  "(\<exists>e. apply_each f xs = Inl e) \<longleftrightarrow> (\<exists>x\<in>set xs. \<exists>e. f x = Inl e)"
  by (induction xs) (auto split: sum.splits)

text \<open>The loop with its accumulator is the elementwise transformation.\<close>

lemma process_loop_apply_each:
  "process_loop fs acc =
     (case apply_each make_row fs of Inl e \<Rightarrow> Inl e | Inr rs \<Rightarrow> Inr (acc @ rs))"
  by (induction fs arbitrary: acc) (auto split: sum.splits)

lemma list_count_optional:
  "optional_list (map_of kvs k) \<Longrightarrow> list_count kvs k = Inr (spec_count (map_of kvs k))"
  by (cases "map_of kvs k" rule: optional_list.cases)
     (auto simp: list_count_def dict_get_def py_or_def)

lemma make_row_fails_iff:
  assumes "optional_list (map_of kvs ''linkedEvents'')"
    and "optional_list (map_of kvs ''instruments'')"
  shows "(\<exists>e. make_row (JObj kvs) = Inl e) \<longleftrightarrow>
         (\<exists>k\<in>set subscripted_keys. map_of kvs k = None)"
  using assms
  by (auto simp: subscripted_keys_def list_count_optional bind_err_def
           split: option.splits sum.splits)

lemma make_row_sample:
  "make_row (JObj (sample_items i b c)) =
     Inr \<lparr>flrID = JStr i, beginTime = JStr b, peakTime = JStr b, endTime = JStr b,
          classType = JStr c, sourceLocation = JNull, activeRegionNum = JNull,
          linkedEvents = 0, instruments = 1\<rparr>"
  by (simp add: sample_items_def list_count_def dict_get_def py_or_def)

text \<open>
  Claim C7. For every sequence of records that the transformation accepts, it returns a
  table with exactly one row per record, in the order of the input: the table is as long as
  the input, and its i-th row is the row made from the i-th record.
\<close>

theorem process_data_one_row_per_record:
  assumes "\<forall>flare\<in>set data. \<exists>row. make_row flare = Inr row"
  shows "\<exists>df. process_data (JArr data) = Inr df \<and> df_len df = length data \<and>
           (\<forall>i<length data. make_row (data ! i) = Inr (df_rows df ! i))"
proof -
  have "\<not> (\<exists>e. apply_each make_row data = Inl e)"
    using assms by (auto simp: apply_each_Inl_iff)
  then obtain processed where ok: "apply_each make_row data = Inr processed"
    by (cases "apply_each make_row data") auto
  then have rel: "list_all2 (\<lambda>flare row. make_row flare = Inr row) data processed"
    by (rule apply_each_Inr_D)
  have "process_data (JArr data) = Inr (DataFrame processed)"
    by (simp add: process_data_def process_loop_apply_each ok)
  moreover have "df_len (DataFrame processed) = length data"
    using rel by (simp add: df_len_def DataFrame_def list_all2_lengthD)
  moreover have "\<forall>i<length data. make_row (data ! i) = Inr (df_rows (DataFrame processed) ! i)"
    using rel by (simp add: DataFrame_def list_all2_conv_all_nth)
  ultimately show ?thesis by blast
qed

theorem process_data_one_row_per_record_witness:
  "\<exists>df. process_data (JArr sample_data) = Inr df \<and> df_len df = 2 \<and>
        make_row (sample_data ! 1) = Inr (df_rows df ! 1)"
proof -
  have "\<forall>flare\<in>set sample_data. \<exists>row. make_row flare = Inr row"
    by (simp add: sample_data_def make_row_sample del: make_row.simps)
  from process_data_one_row_per_record [OF this] show ?thesis
    by (auto simp: sample_data_def simp del: make_row.simps)
qed

text \<open>
  Claim C8. For every record that has the seven subscripted keys and whose linked-events
  and instruments fields are absent, null or a list, the row is made without an error, and
  its two counts are natural numbers: the length of the list when the field is a list, 0
  when the field is null or absent.
\<close>

theorem optional_list_counts:
  assumes "\<forall>k\<in>set subscripted_keys. map_of kvs k \<noteq> None"
    and "optional_list (map_of kvs ''linkedEvents'')"
    and "optional_list (map_of kvs ''instruments'')"
  shows "\<exists>row. make_row (JObj kvs) = Inr row \<and>
           linkedEvents row = spec_count (map_of kvs ''linkedEvents'') \<and>
           instruments row = spec_count (map_of kvs ''instruments'')"
  using assms by (auto simp: subscripted_keys_def list_count_optional)

theorem optional_list_counts_witness:
  "\<exists>row. make_row (JObj [(''flrID'', JStr ''FLR-001''), (''beginTime'', JStr ''2024-01-01T00:00Z''),
                          (''peakTime'', JNull), (''endTime'', JNull), (''classType'', JStr ''M2.3''),
                          (''sourceLocation'', JNull), (''activeRegionNum'', JInt 13500),
                          (''instruments'', JArr [JStr ''a'', JStr ''b''])]) = Inr row \<and>
         linkedEvents row = 0 \<and> instruments row = 2"
  using optional_list_counts
    [of "[(''flrID'', JStr ''FLR-001''), (''beginTime'', JStr ''2024-01-01T00:00Z''),
          (''peakTime'', JNull), (''endTime'', JNull), (''classType'', JStr ''M2.3''),
          (''sourceLocation'', JNull), (''activeRegionNum'', JInt 13500),
          (''instruments'', JArr [JStr ''a'', JStr ''b''])]"]
  by (simp add: subscripted_keys_def numeral_2_eq_2 del: make_row.simps)

text \<open>
  Claim C3, as amended. For records that are JSON objects whose linked-events and
  instruments fields are absent, null or a list, the transformation fails if and only if
  some record lacks one of the seven keys it subscripts: the identifier, the begin, peak and
  end time, the class designation, and also the source location and the active-region
  number. Only the two list fields may be absent; they then count as empty.
\<close>

theorem transformation_fails_iff_key_missing:
  assumes "\<forall>kvs\<in>set dicts. optional_list (map_of kvs ''linkedEvents'') \<and>
                              optional_list (map_of kvs ''instruments'')"
  shows "(\<exists>e. process_data (JArr (map JObj dicts)) = Inl e) \<longleftrightarrow>
         (\<exists>kvs\<in>set dicts. \<exists>k\<in>set subscripted_keys. map_of kvs k = None)"
proof -
  have "(\<exists>e. process_data (JArr (map JObj dicts)) = Inl e) \<longleftrightarrow>
        (\<exists>e. apply_each make_row (map JObj dicts) = Inl e)"
    by (auto simp: process_data_def process_loop_apply_each split: sum.splits)
  also have "\<dots> \<longleftrightarrow> (\<exists>kvs\<in>set dicts. \<exists>e. make_row (JObj kvs) = Inl e)"
    by (simp add: apply_each_Inl_iff del: make_row.simps)
  also have "\<dots> \<longleftrightarrow> (\<exists>kvs\<in>set dicts. \<exists>k\<in>set subscripted_keys. map_of kvs k = None)"
    using assms make_row_fails_iff by blast
  finally show ?thesis .
qed

theorem transformation_fails_iff_key_missing_witness:
  "\<exists>e. process_data (JArr (map JObj
      [[(''flrID'', JStr ''FLR-001''), (''beginTime'', JStr ''2024-01-01T00:00Z''),
        (''peakTime'', JNull), (''endTime'', JNull), (''classType'', JStr ''M2.3''),
        (''sourceLocation'', JNull), (''linkedEvents'', JArr [])]])) = Inl e"
  using transformation_fails_iff_key_missing
    [of "[[(''flrID'', JStr ''FLR-001''), (''beginTime'', JStr ''2024-01-01T00:00Z''),
        (''peakTime'', JNull), (''endTime'', JNull), (''classType'', JStr ''M2.3''),
        (''sourceLocation'', JNull), (''linkedEvents'', JArr [])]]"]
  by (simp add: subscripted_keys_def)

text \<open>
  Against claim C3 as it was stated: a record that has the identifier, the three times and
  the class designation, and none of the optional fields, is not transformed; the subscript
  \<^verbatim>\<open>flare['sourceLocation']\<close> raises.
\<close>

theorem missing_source_location_counterexample:
  "process_data (JArr [JObj [(''flrID'', JStr ''FLR-001''),
                             (''beginTime'', JStr ''2024-01-01T00:00Z''),
                             (''peakTime'', JStr ''2024-01-01T00:10Z''),
                             (''endTime'', JStr ''2024-01-01T00:20Z''),
                             (''classType'', JStr ''M2.3'')]])
     = Inl (KeyError ''sourceLocation'')"
  by (simp add: process_data_def)

section \<open>Properties of the derived intensity\<close>

text \<open>
  Claim C1, as amended. For every class designation that begins with A, B, C, M or X the
  derived intensity is the code point of that letter minus 65: 0, 1, 2, 12 and 23
  respectively, whatever follows the letter.
\<close>

theorem intensity_of_class_letter:
  "intensity (JStr (CHR ''A'' # rest)) = Inr 0 \<and>
   intensity (JStr (CHR ''B'' # rest)) = Inr 1 \<and>
   intensity (JStr (CHR ''C'' # rest)) = Inr 2 \<and>
   intensity (JStr (CHR ''M'' # rest)) = Inr 12 \<and>
   intensity (JStr (CHR ''X'' # rest)) = Inr 23"
  by simp

text \<open>
  Against claim C1 as it was stated: the class designation M2.3 gives the intensity 12, not
  15, and X1.0 gives 23, not 20.
\<close>

theorem intensity_scaled_by_five_counterexample:
  "intensity (JStr ''M2.3'') = Inr 12 \<and> intensity (JStr ''M2.3'') \<noteq> Inr 15 \<and>
   intensity (JStr ''X1.0'') = Inr 23 \<and> intensity (JStr ''X1.0'') \<noteq> Inr 20"
  by simp

text \<open>
  Claim C10. The derivation raises \<^verbatim>\<open>IndexError\<close> on the empty class designation, and
  on a column of strings it yields the intensities exactly when no class designation of the
  column is empty.
\<close>

theorem intensity_fails_on_empty_class:
  "intensity (JStr []) = Inl IndexError \<and>
   ((\<exists>intensities. apply_each intensity (map JStr classes) = Inr intensities) \<longleftrightarrow>
      [] \<notin> set classes)"
proof -
  have "(\<exists>ys. apply_each intensity (map JStr classes) = Inr ys) \<longleftrightarrow>
        \<not> (\<exists>e. apply_each intensity (map JStr classes) = Inl e)"
    by (cases "apply_each intensity (map JStr classes)") auto
  also have "\<dots> \<longleftrightarrow> \<not> (\<exists>s\<in>set classes. \<exists>e. intensity (JStr s) = Inl e)"
    by (simp add: apply_each_Inl_iff del: intensity.simps)
  also have "\<dots> \<longleftrightarrow> [] \<notin> set classes"
  proof -
    have "(\<exists>e. intensity (JStr s) = Inl e) \<longleftrightarrow> s = []" for s
      by (cases s) auto
    then show ?thesis by auto
  qed
  finally show ?thesis by simp
qed

theorem intensity_fails_on_empty_class_witness:
  "\<not> (\<exists>intensities. apply_each intensity (map JStr [''M2.3'', '''', ''X1.0'']) = Inr intensities)"
  using intensity_fails_on_empty_class [of "[''M2.3'', '''', ''X1.0'']"] by simp

section \<open>Properties of the time series\<close>

lemma ns_per_day_pos: "0 < ns_per_day"
  by (simp add: ns_per_day_def)

lemma mono_day_of: "mono day_of"
  by (rule monoI) (simp add: day_of_def zdiv_mono1 ns_per_day_pos)

lemma days_set: "set (map (\<lambda>tv. day_of (fst tv)) indexed) = day_of ` fst ` set indexed"
  by (simp add: image_image)

text \<open>The earliest day is the day of the earliest timestamp, and likewise the latest.\<close>

lemma Min_days:
  assumes "indexed \<noteq> []"
  shows "Min (day_of ` fst ` set indexed) = day_of (Min (fst ` set indexed))"
  using assms by (intro mono_Min_commute [symmetric] mono_day_of) auto

lemma Max_days:
  assumes "indexed \<noteq> []"
  shows "Max (day_of ` fst ` set indexed) = day_of (Max (fst ` set indexed))"
  using assms by (intro mono_Max_commute [symmetric] mono_day_of) auto

lemma resample_count_nonempty:
  assumes "indexed \<noteq> []"
  shows "resample_count indexed =
           map (\<lambda>d. (d, day_count indexed d))
             [day_of (Min (fst ` set indexed)) .. day_of (Max (fst ` set indexed))]"
  using assms by (simp add: resample_count_def days_set Min_days Max_days del: set_map)



lemma day_count_zero:
  "\<forall>tv\<in>set indexed. day_of (fst tv) \<noteq> d \<Longrightarrow> day_count indexed d = 0"
  by (simp add: day_count_def)


text \<open>
  Claim C4, as amended. For every non-empty sequence of rows the (day, count) pairs of the
  time series are contiguous from the day of the earliest begin time to the day of the
  latest one, whatever range was requested, and the count is 0 for every day of that span
  on which no row begins.
\<close>

theorem timeline_spans_event_days:
  assumes "indexed \<noteq> []"
  shows "map fst (resample_count indexed) =
           [day_of (Min (fst ` set indexed)) .. day_of (Max (fst ` set indexed))] \<and>
         (\<forall>d n. (d, n) \<in> set (resample_count indexed) \<longrightarrow>
                  (\<forall>tv\<in>set indexed. day_of (fst tv) \<noteq> d) \<longrightarrow> n = 0)"
  using assms by (auto simp: resample_count_nonempty comp_def day_count_zero)

theorem timeline_spans_event_days_witness:
  "map fst (resample_count [(1704067200000000000, JStr ''FLR-001''),
                            (1704267200000000000, JStr ''FLR-002'')]) = [19723, 19724, 19725] \<and>
   (19724, 0) \<in> set (resample_count [(1704067200000000000, JStr ''FLR-001''),
                                      (1704267200000000000, JStr ''FLR-002'')])"
proof -
  have span: "map fst (resample_count [(1704067200000000000, JStr ''FLR-001''),
                            (1704267200000000000, JStr ''FLR-002'')]) = [19723, 19724, 19725]"
    using timeline_spans_event_days
      [of "[(1704067200000000000, JStr ''FLR-001''), (1704267200000000000, JStr ''FLR-002'')]"]
    by (simp add: day_of_def ns_per_day_def upto_rec1 [of 19723 19725] upto_rec1 [of 19724 19725])
  then show ?thesis
    using timeline_spans_event_days
      [of "[(1704067200000000000, JStr ''FLR-001''), (1704267200000000000, JStr ''FLR-002'')]"]
    by (simp add: resample_count_def day_count_def day_of_def ns_per_day_def
          upto_rec1 [of 19723 19725] upto_rec1 [of 19724 19725])
qed



section \<open>Properties of the page\<close>

lemma and_then_emit [simp]: "and_then (emit es) f = (es @ fst (f ()), snd (f ()))"
  by (simp add: and_then_def emit_def)

lemma and_then_lift_Inr [simp]: "and_then (lift (Inr x)) f = f x"
  by (simp add: and_then_def lift_def)

lemma and_then_lift_Inl [simp]: "and_then (lift (Inl e)) f = ([], Inl e)"
  by (simp add: and_then_def lift_def)

lemma and_then_pair_Inl [simp]: "and_then (es, Inl e) f = (es, Inl e)"
  by (simp add: and_then_def)

lemma and_then_pair_Inr [simp]: "and_then (es, Inr x) f = (es @ fst (f x), snd (f x))"
  by (simp add: and_then_def)

text \<open>The fetch makes its one request and then decides by the status code.\<close>

lemma get_solar_flare_data_eq:
  "get_solar_flare_data w s e =
     ([HttpGet (flare_url w s e)],
      case requests_get w (flare_url w s e) of
        Inl err \<Rightarrow> Inl err
      | Inr r \<Rightarrow> if status_code r = 200 then json_body r else Inl (ApiCallFailed (status_code r)))"
  by (auto simp: get_solar_flare_data_def lift_def split: sum.splits)

lemma stub_world_simps [simp]:
  "requests_get (stub_world dates reply parsed) url = reply"
  "strftime (stub_world dates reply parsed) d = (case map_of dates d of None \<Rightarrow> [] | Some s \<Rightarrow> s)"
  "value_counts (stub_world dates reply parsed) classes =
     Inr (map (\<lambda>c. (c, count_list classes c)) (remdups classes))"
  "to_datetime (stub_world dates reply parsed) v =
     (case map_of parsed v of None \<Rightarrow> Inl (LibraryError ''not parsed'') | Some t \<Rightarrow> Inr t)"
  by (simp_all add: stub_world_def)

text \<open>
  Against claim C4 as it was stated: the range from 1 to 31 January 2024 (days 19723 to
  19753) is requested and the upstream returns one flare, which begins on 10 January.
  The line chart then has the single day 19732, not the 31 days of the requested range.
\<close>

theorem timeline_full_range_counterexample:
  "map (map fst) (line_charts (fst (main
      (stub_world [(19723, ''2024-01-01''), (19753, ''2024-01-31'')]
         (Inr \<lparr>status_code = 200,
               json_body = Inr (JArr [JObj (sample_items ''FLR-001'' ''2024-01-10T06:30Z'' ''M2.3'')])\<rparr>)
         [(JStr ''2024-01-10T06:30Z'', 1704868200000000000)])
      19723 19753 True))) = [[19732]] \<and>
   [19732] \<noteq> [19723..19753]"
proof -
  have "[19732] \<noteq> [19723..(19753::int)]"
    by (simp add: upto_rec1 [of 19723 19753])
  then show ?thesis
    by (simp add: main_def analyze_def get_solar_flare_data_eq process_data_def
      make_row_sample DataFrame_def column_def row_keys_def df_len_def pie_tab_def
      timeline_tab_def scatter_tab_def resample_count_def day_count_def day_of_def
      ns_per_day_def footer_def emit_def lift_def del: make_row.simps)
qed

text \<open>
  Claim C5. Whatever the two dates, when the upstream answers, the fetch returns what
  \<^verbatim>\<open>response.json()\<close> decodes if the status code is 200, and otherwise raises the
  exception that carries the status code; the page then stops after the request, before
  any table or chart.
\<close>

theorem fetch_by_status:
  assumes "requests_get w (flare_url w s e) = Inr r"
  shows "(status_code r = 200 \<longrightarrow> snd (get_solar_flare_data w s e) = json_body r) \<and>
         (status_code r \<noteq> 200 \<longrightarrow>
            snd (get_solar_flare_data w s e) = Inl (ApiCallFailed (status_code r)) \<and>
            (s \<le> e \<longrightarrow>
               main w s e True =
                 ([SetPageConfig, Style, Title, DateInput ''Start Date'', DateInput ''End Date'',
                   Button ''Analyze Solar Flares'', Spinner ''Fetching and processing data...'',
                   HttpGet (flare_url w s e)],
                  Inl (ApiCallFailed (status_code r)))))"
  using assms by (simp add: get_solar_flare_data_eq main_def analyze_def)

theorem fetch_by_status_witness:
  "snd (get_solar_flare_data
          (stub_world [] (Inr \<lparr>status_code = 200, json_body = Inr (JArr sample_data)\<rparr>) [])
          19723 19753) = Inr (JArr sample_data) \<and>
   snd (get_solar_flare_data
          (stub_world [] (Inr \<lparr>status_code = 503, json_body = Inr JNull\<rparr>) [])
          19723 19753) = Inl (ApiCallFailed 503) \<and>
   snd (main (stub_world [] (Inr \<lparr>status_code = 503, json_body = Inr JNull\<rparr>) [])
          19723 19753 True) = Inl (ApiCallFailed 503)"
  using fetch_by_status
      [of "stub_world [] (Inr \<lparr>status_code = 200, json_body = Inr (JArr sample_data)\<rparr>) []"
          19723 19753 "\<lparr>status_code = 200, json_body = Inr (JArr sample_data)\<rparr>"]
    fetch_by_status
      [of "stub_world [] (Inr \<lparr>status_code = 503, json_body = Inr JNull\<rparr>) []"
          19723 19753 "\<lparr>status_code = 503, json_body = Inr JNull\<rparr>"]
  by simp

text \<open>
  Claim C6. For every pair of dates with the start after the end, the page shows the error
  message and the footer and does nothing else: there is no request, no table and no chart
  in its trace, whether or not the button would be pressed and whatever the outside is.
\<close>

theorem invalid_range_runs_nothing:
  assumes "end_date < start_date"
  shows "main w start_date end_date pressed =
           ([SetPageConfig, Style, Title, DateInput ''Start Date'', DateInput ''End Date'',
             ErrorBox ''Error: End date must be after start date.''] @ footer,
            Inr ())"
  using assms by (simp add: main_def emit_def)

theorem invalid_range_runs_nothing_witness:
  "main (stub_world [] (Inl (LibraryError ''the stub must not be called'')) []) 19753 19723 True =
     ([SetPageConfig, Style, Title, DateInput ''Start Date'', DateInput ''End Date'',
       ErrorBox ''Error: End date must be after start date.''] @ footer,
      Inr ())"
  using invalid_range_runs_nothing
      [of 19723 19753 "stub_world [] (Inl (LibraryError ''the stub must not be called'')) []" True]
  by simp

text \<open>
  On claim C2. When the upstream answers 200 with the empty array, the page shows the total
  count 0 and opens the tabs; then the selection of the column \<^verbatim>\<open>classType\<close> from the
  table, which has no columns, raises \<^verbatim>\<open>KeyError\<close>, and none of the three charts is
  drawn.
\<close>

theorem empty_array_raises:
  assumes "requests_get w (flare_url w s e) = Inr \<lparr>status_code = 200, json_body = Inr (JArr [])\<rparr>"
    and "s \<le> e"
  shows "main w s e True =
           ([SetPageConfig, Style, Title, DateInput ''Start Date'', DateInput ''End Date'',
             Button ''Analyze Solar Flares'', Spinner ''Fetching and processing data...'',
             HttpGet (flare_url w s e), TotalFlares 0,
             Tabs [''Pie Chart'', ''Flare Timeline'', ''Advanced Analysis''],
             Markdown ''This section provides an overview of the solar flare data and the distribution of their class types.'',
             Subheader ''Distribution of Flare Class Types''],
            Inl (KeyError ''classType''))"
  using assms
  by (simp add: get_solar_flare_data_eq main_def analyze_def process_data_def DataFrame_def
        df_len_def pie_tab_def column_def)

theorem empty_array_raises_witness:
  "snd (main (stub_world [] (Inr \<lparr>status_code = 200, json_body = Inr (JArr [])\<rparr>) [])
          19723 19753 True) = Inl (KeyError ''classType'')"
  using empty_array_raises
      [of "stub_world [] (Inr \<lparr>status_code = 200, json_body = Inr (JArr [])\<rparr>) []" 19723 19753]
  by simp

end
